theory Spec2Isabelle
  imports Complex_Main "HOL-Library.AList"
begin

section \<open>Python values, exceptions and dictionaries\<close>

text \<open>
  A Python float is modelled by the real number it denotes, or by one of the three
  non-finite values. Rounding is outside the model; no statement below depends on it.
\<close>

datatype pyfloat = Fin real | NaN | PosInf | NegInf

text \<open>
  A naive \<^verbatim>\<open>datetime\<close>: the proleptic Gregorian ordinal of its date (day 1 is
  0001-01-01, as \<^verbatim>\<open>date.toordinal()\<close>) and the microseconds elapsed within that day.
\<close>

record datetime =
  dt_ordinal :: int
  dt_micros :: int

datatype pyval =
    PNone
  | PBool bool
  | PInt int
  | PFloat pyfloat
  | PStr string
  | PDatetime datetime
  | PList "pyval list"
  | PDict "(string \<times> pyval) list"

text \<open>
  The exceptions the code can meet. \<^verbatim>\<open>JSONDecodeError\<close> is a subclass of
  \<^verbatim>\<open>ValueError\<close>; \<open>OtherError\<close> stands for any exception class of a library that
  the code never names (a transport failure, a CSV parse error).
\<close>

datatype exn =
    KeyError string
  | TypeError
  | ValueError string
  | JSONDecodeError
  | OverflowError
  | AttributeError
  | OtherError string

text \<open>
  A \<^verbatim>\<open>dict\<close> with string keys is an association list in insertion order. Storing
  under a key that exists replaces the value in place, storing under a new key appends
  (\<^const>\<open>AList.update\<close>).
\<close>

type_synonym dict = "(string \<times> pyval) list"

definition dict_has :: "dict \<Rightarrow> string \<Rightarrow> bool" where
  "dict_has d k = (map_of d k \<noteq> None)"

text \<open>\<^verbatim>\<open>d.get(k)\<close>: the value, or \<^verbatim>\<open>None\<close> when the key is missing.\<close>

definition dict_get :: "dict \<Rightarrow> string \<Rightarrow> pyval" where
  "dict_get d k = (case map_of d k of None \<Rightarrow> PNone | Some v \<Rightarrow> v)"

text \<open>\<^verbatim>\<open>d[k]\<close>: the value, or \<^verbatim>\<open>KeyError\<close>.\<close>

definition dict_item :: "dict \<Rightarrow> string \<Rightarrow> exn + pyval" where
  "dict_item d k = (case map_of d k of None \<Rightarrow> Inl (KeyError k) | Some v \<Rightarrow> Inr v)"

definition dict_set :: "dict \<Rightarrow> string \<Rightarrow> pyval \<Rightarrow> dict" where
  "dict_set d k v = AList.update k v d"

text \<open>\<^verbatim>\<open>x.get(k)\<close> on an arbitrary value: only a dict has the method.\<close>

fun py_get :: "pyval \<Rightarrow> string \<Rightarrow> exn + pyval" where
  "py_get (PDict d) k = Inr (dict_get d k)"
| "py_get _ k = Inl AttributeError"

text \<open>Truth value testing, as \<^verbatim>\<open>bool(x)\<close> and \<^verbatim>\<open>if x:\<close> do it.\<close>

fun py_truthy :: "pyval \<Rightarrow> bool" where
  "py_truthy PNone = False"
| "py_truthy (PBool b) = b"
| "py_truthy (PInt i) = (i \<noteq> 0)"
| "py_truthy (PFloat (Fin r)) = (r \<noteq> 0)"
| "py_truthy (PFloat _) = True"
| "py_truthy (PStr s) = (s \<noteq> [])"
| "py_truthy (PDatetime _) = True"
| "py_truthy (PList xs) = (xs \<noteq> [])"
| "py_truthy (PDict d) = (d \<noteq> [])"

text \<open>
  \<^verbatim>\<open>x == 'literal'\<close> and \<^verbatim>\<open>x == 1\<close>. A string equals only the same string; the
  integer 1 equals the numbers of value one, which in Python include \<^verbatim>\<open>True\<close> and
  \<^verbatim>\<open>1.0\<close>.
\<close>

fun py_eq_str :: "pyval \<Rightarrow> string \<Rightarrow> bool" where
  "py_eq_str (PStr s) t = (s = t)"
| "py_eq_str _ t = False"

fun py_eq_int :: "pyval \<Rightarrow> int \<Rightarrow> bool" where
  "py_eq_int (PInt i) n = (i = n)"
| "py_eq_int (PBool b) n = ((if b then 1 else 0) = n)"
| "py_eq_int (PFloat (Fin r)) n = (r = real_of_int n)"
| "py_eq_int _ n = False"

text \<open>Sequencing of steps that may raise: the first exception ends the computation.\<close>

definition bind_exn :: "exn + 'a \<Rightarrow> ('a \<Rightarrow> exn + 'b) \<Rightarrow> exn + 'b" where
  "bind_exn m f = (case m of Inl e \<Rightarrow> Inl e | Inr x \<Rightarrow> f x)"

section \<open>Dates\<close>

text \<open>
  \<^verbatim>\<open>d - timedelta(weeks=n)\<close>: seven days per week; a result before year 1 or after
  year 9999 raises \<^verbatim>\<open>OverflowError\<close>.
\<close>

definition max_ordinal :: int where
  "max_ordinal = 3652059"

definition sub_weeks :: "datetime \<Rightarrow> int \<Rightarrow> exn + datetime" where
  "sub_weeks d n =
     (let o' = dt_ordinal d - 7 * n
      in if o' < 1 \<or> max_ordinal < o' then Inl OverflowError
         else Inr (d\<lparr>dt_ordinal := o'\<rparr>))"

text \<open>The civil date of an ordinal, by the 400, 100, 4 and 1 year cycles.\<close>

definition days_before_month :: "int list" where
  "days_before_month = [0, 31, 59, 90, 120, 151, 181, 212, 243, 273, 304, 334]"

definition days_in_month :: "int list" where
  "days_in_month = [31, 28, 31, 30, 31, 30, 31, 31, 30, 31, 30, 31]"

definition ord2ymd :: "int \<Rightarrow> int \<times> int \<times> int" where
  "ord2ymd n0 =
     (let n = n0 - 1;
          n400 = n div 146097; n = n mod 146097;
          n100 = n div 36524; n = n mod 36524;
          n4 = n div 1461; n = n mod 1461;
          n1 = n div 365; n = n mod 365;
          year = n400 * 400 + 1 + n100 * 100 + n4 * 4 + n1
      in if n1 = 4 \<or> n100 = 4 then (year - 1, 12, 31)
         else
           let leapyear = (n1 = 3 \<and> (n4 \<noteq> 24 \<or> n100 = 3));
               month = (n + 50) div 32;
               preceding = days_before_month ! nat (month - 1)
                           + (if 2 < month \<and> leapyear then 1 else 0)
           in if n < preceding
              then
                let month' = month - 1;
                    preceding' = preceding - (days_in_month ! nat (month' - 1)
                                   + (if month' = 2 \<and> leapyear then 1 else 0))
                in (year, month', n - preceding' + 1)
              else (year, month, n - preceding + 1))"

definition digit_char :: "nat \<Rightarrow> char" where
  "digit_char n = char_of (48 + n)"

fun digits10 :: "nat \<Rightarrow> string" where
  "digits10 n = (if n < 10 then [digit_char n] else digits10 (n div 10) @ [digit_char (n mod 10)])"

definition pad2 :: "nat \<Rightarrow> string" where
  "pad2 n = (if n < 10 then CHR ''0'' # digits10 n else digits10 n)"

text \<open>
  \<^verbatim>\<open>d.strftime("%Y-%m-%d 00:00:00")\<close>: the date of \<open>d\<close>, its time of day replaced by
  the literal midnight.
\<close>

definition strftime_midnight :: "datetime \<Rightarrow> string" where
  "strftime_midnight d =
     (case ord2ymd (dt_ordinal d) of (y, m, dd) \<Rightarrow>
        digits10 (nat y) @ ''-'' @ pad2 (nat m) @ ''-'' @ pad2 (nat dd) @ '' 00:00:00'')"

section \<open>Tables\<close>

text \<open>
  A \<^verbatim>\<open>DataFrame\<close>: its column names, its rows (one cell per column) and its row
  index.
\<close>

record frame =
  columns :: "string list"
  rows :: "pyval list list"
  index :: "pyval list"

section \<open>The environment of the package\<close>

text \<open>
  The functions of the standard library and of third-party packages that the code calls,
  and the constants of the module \<^verbatim>\<open>api_data\<close>, are parameters of the model:
  the builtins \<^verbatim>\<open>float\<close> and \<^verbatim>\<open>int\<close>, \<^verbatim>\<open>json.loads\<close>,
  \<^verbatim>\<open>datetime.utcfromtimestamp\<close>, \<^verbatim>\<open>THINGSPEAK_API_URL.format\<close>,
  \<^verbatim>\<open>urllib.parse.urlencode\<close>, \<^verbatim>\<open>pandas.read_csv\<close> (the only call that
  reaches the network), \<^verbatim>\<open>pandas.to_datetime\<close> on one cell, and the four column
  tables.
\<close>

record env =
  py_float :: "pyval \<Rightarrow> exn + pyfloat"
  py_int :: "pyval \<Rightarrow> exn + int"
  json_loads :: "pyval \<Rightarrow> exn + pyval"
  utcfromtimestamp :: "pyval \<Rightarrow> exn + datetime"
  url_format :: "pyval \<Rightarrow> string \<Rightarrow> string"
  urlencode :: "dict \<Rightarrow> string"
  read_csv :: "string \<Rightarrow> exn + frame"
  to_datetime :: "pyval \<Rightarrow> exn + pyval"
  PARENT_PRIMARY_COLS :: "(string \<times> string) list"
  PARENT_SECONDARY_COLS :: "(string \<times> string) list"
  CHILD_PRIMARY_COLS :: "(string \<times> string) list"
  CHILD_SECONDARY_COLS :: "(string \<times> string) list"

section \<open>The channel record\<close>

text \<open>
  The attributes that \<^verbatim>\<open>Channel.setup\<close> assigns, in its order. Attributes that copy
  a raw value hold a \<^typ>\<open>pyval\<close> (\<^const>\<open>PNone\<close> when the key is missing); the attributes
  \<^verbatim>\<open>type\<close> and \<^verbatim>\<open>identifier\<close> are \<open>ctype\<close> and \<open>ident\<close> here. A ThingSpeak handle is the pair of the identifier and
  the key it was built from: \<^verbatim>\<open>thingspeak.Channel(id, api_key)\<close> only stores them.
\<close>

record channel =
  channel_data :: dict
  lat :: "pyfloat option"
  lon :: "pyfloat option"
  ident :: pyval
  parent :: pyval
  ctype :: string
  name :: pyval
  location_type :: pyval
  current_pm2_5 :: "pyfloat option"
  current_temp_f :: "pyfloat option"
  current_temp_c :: "pyfloat option"
  current_humidity :: "pyfloat option"
  current_pressure :: "pyfloat option"
  current_p_0_3_um :: "pyfloat option"
  current_p_0_5_um :: "pyfloat option"
  current_p_1_0_um :: "pyfloat option"
  current_p_2_5_um :: "pyfloat option"
  current_p_5_0_um :: "pyfloat option"
  current_p_10_0_um :: "pyfloat option"
  current_pm1_0_cf_1 :: "pyfloat option"
  current_pm2_5_cf_1 :: "pyfloat option"
  current_pm10_0_cf_1 :: "pyfloat option"
  current_pm1_0_atm :: "pyfloat option"
  current_pm2_5_atm :: "pyfloat option"
  current_pm10_0_atm :: "pyfloat option"
  pm2_5stats :: pyval
  m10avg :: pyval
  m30avg :: pyval
  h1ravg :: pyval
  h6ravg :: pyval
  d1avg :: pyval
  w1avg :: pyval
  last_modified_stats :: "datetime option"
  last2_modified :: pyval
  tp_primary_channel :: pyval
  tp_primary_key :: pyval
  tp_secondary_channel :: pyval
  tp_secondary_key :: pyval
  thingspeak_primary :: "(pyval \<times> pyval) option"
  thingspeak_secondary :: "(pyval \<times> pyval) option"
  last_seen :: "datetime option"
  model :: pyval
  adc :: pyval
  rssi :: pyval
  hidden :: bool
  flagged :: bool
  downgraded :: bool
  age :: pyval
  brightness :: pyval
  hardware :: pyval
  version :: pyval
  last_update_check :: pyval
  created :: pyval
  uptime :: pyval
  is_owner :: bool

text \<open>
  \<^verbatim>\<open>Channel.safe_float\<close>: a missing key (or a stored \<^verbatim>\<open>None\<close>) gives \<^verbatim>\<open>None\<close>;
  otherwise \<^verbatim>\<open>float\<close> is applied, and its \<^verbatim>\<open>TypeError\<close> and \<^verbatim>\<open>ValueError\<close>
  (with its subclasses) are turned into \<^verbatim>\<open>None\<close>. Any other exception escapes.
\<close>

definition safe_float :: "env \<Rightarrow> dict \<Rightarrow> string \<Rightarrow> exn + pyfloat option" where
  "safe_float E d key =
     (case dict_get d key of
        PNone \<Rightarrow> Inr None
      | v \<Rightarrow>
         (case py_float E v of
            Inr f \<Rightarrow> Inr (Some f)
          | Inl TypeError \<Rightarrow> Inr None
          | Inl (ValueError m) \<Rightarrow> Inr None
          | Inl JSONDecodeError \<Rightarrow> Inr None
          | Inl e \<Rightarrow> Inl e))"

text \<open>\<^verbatim>\<open>(f - 32) * (5 / 9)\<close> on a float.\<close>

fun to_celsius :: "pyfloat \<Rightarrow> pyfloat" where
  "to_celsius (Fin f) = Fin ((f - 32) * (5 / 9))"
| "to_celsius x = x"

text \<open>
  The statistics attributes. \<open>stats_avg\<close> is
  \<^verbatim>\<open>self.pm2_5stats.get(k) if self.pm2_5stats else None\<close> (a truth test);
  \<open>stats_field\<close> is \<^verbatim>\<open>self.pm2_5stats.get(k) if self.pm2_5stats is not None else None\<close>.
\<close>

definition stats_avg :: "pyval \<Rightarrow> string \<Rightarrow> exn + pyval" where
  "stats_avg st k = (if py_truthy st then py_get st k else Inr PNone)"

definition stats_field :: "pyval \<Rightarrow> string \<Rightarrow> exn + pyval" where
  "stats_field st k = (if st \<noteq> PNone then py_get st k else Inr PNone)"

text \<open>
  \<^verbatim>\<open>datetime.utcfromtimestamp(int(last_mod) / 1000)\<close> when \<open>last_mod\<close> is not
  \<^verbatim>\<open>None\<close>; the attribute stays \<^verbatim>\<open>None\<close> otherwise.
\<close>

definition stats_last_modified :: "env \<Rightarrow> pyval \<Rightarrow> exn + datetime option" where
  "stats_last_modified E last_mod =
     (if last_mod \<noteq> PNone
      then bind_exn (py_int E last_mod) (\<lambda>i.
           bind_exn (utcfromtimestamp E (PFloat (Fin (real_of_int i / 1000)))) (\<lambda>t.
           Inr (Some t)))
      else Inr None)"

text \<open>
  The four ThingSpeak keys are read inside one \<^verbatim>\<open>try\<close>; a \<^verbatim>\<open>KeyError\<close> on any
  of them sets all four attributes and both handles to \<^verbatim>\<open>None\<close>.
\<close>

definition thingspeak_ids ::
  "dict \<Rightarrow> (pyval \<times> pyval \<times> pyval \<times> pyval) option" where
  "thingspeak_ids d =
     (case bind_exn (dict_item d ''THINGSPEAK_PRIMARY_ID'') (\<lambda>pc.
           bind_exn (dict_item d ''THINGSPEAK_PRIMARY_ID_READ_KEY'') (\<lambda>pk.
           bind_exn (dict_item d ''THINGSPEAK_SECONDARY_ID'') (\<lambda>sc.
           bind_exn (dict_item d ''THINGSPEAK_SECONDARY_ID_READ_KEY'') (\<lambda>sk.
           Inr (pc, pk, sc, sk))))) of
        Inr r \<Rightarrow> Some r
      | Inl _ \<Rightarrow> None)"

text \<open>\<^verbatim>\<open>datetime.utcfromtimestamp(int(last_seen))\<close>, or \<^verbatim>\<open>None\<close>.\<close>

definition last_seen_of :: "env \<Rightarrow> pyval \<Rightarrow> exn + datetime option" where
  "last_seen_of E ls =
     (if ls \<noteq> PNone
      then bind_exn (py_int E ls) (\<lambda>i.
           bind_exn (utcfromtimestamp E (PInt i)) (\<lambda>t.
           Inr (Some t)))
      else Inr None)"

text \<open>
  \<^verbatim>\<open>Channel.__init__\<close> with \<^verbatim>\<open>Channel.setup\<close>: the statements in their order, each
  one that can raise bound by \<^const>\<open>bind_exn\<close>. An exception leaves no object.
\<close>

definition channel_setup :: "env \<Rightarrow> dict \<Rightarrow> exn + channel" where
  "channel_setup E d =
     bind_exn (safe_float E d ''Lat'') (\<lambda>v_lat.
     bind_exn (safe_float E d ''Lon'') (\<lambda>v_lon.
     bind_exn (safe_float E d ''PM2_5Value'') (\<lambda>v_pm2_5.
     bind_exn (safe_float E d ''temp_f'') (\<lambda>v_temp_f.
     bind_exn (safe_float E d ''humidity'') (\<lambda>v_humidity.
     bind_exn (safe_float E d ''pressure'') (\<lambda>v_pressure.
     bind_exn (safe_float E d ''p_0_3_um'') (\<lambda>v_p_0_3.
     bind_exn (safe_float E d ''p_0_5_um'') (\<lambda>v_p_0_5.
     bind_exn (safe_float E d ''p_1_0_um'') (\<lambda>v_p_1_0.
     bind_exn (safe_float E d ''p_2_5_um'') (\<lambda>v_p_2_5.
     bind_exn (safe_float E d ''p_5_0_um'') (\<lambda>v_p_5_0.
     bind_exn (safe_float E d ''p_10_0_um'') (\<lambda>v_p_10_0.
     bind_exn (safe_float E d ''pm1_0_cf_1'') (\<lambda>v_pm1_0_cf_1.
     bind_exn (safe_float E d ''pm2_5_cf_1'') (\<lambda>v_pm2_5_cf_1.
     bind_exn (safe_float E d ''pm10_0_cf_1'') (\<lambda>v_pm10_0_cf_1.
     bind_exn (safe_float E d ''pm1_0_atm'') (\<lambda>v_pm1_0_atm.
     bind_exn (safe_float E d ''pm2_5_atm'') (\<lambda>v_pm2_5_atm.
     bind_exn (safe_float E d ''pm10_0_atm'') (\<lambda>v_pm10_0_atm.
     bind_exn (if dict_has d ''Stats'' then json_loads E (dict_get d ''Stats'') else Inr PNone)
       (\<lambda>v_stats.
     bind_exn (stats_avg v_stats ''v1'') (\<lambda>v_m10.
     bind_exn (stats_avg v_stats ''v2'') (\<lambda>v_m30.
     bind_exn (stats_avg v_stats ''v3'') (\<lambda>v_h1.
     bind_exn (stats_avg v_stats ''v4'') (\<lambda>v_h6.
     bind_exn (stats_avg v_stats ''v5'') (\<lambda>v_d1.
     bind_exn (stats_avg v_stats ''v6'') (\<lambda>v_w1.
     bind_exn (stats_field v_stats ''lastModified'') (\<lambda>last_mod.
     bind_exn (stats_last_modified E last_mod) (\<lambda>v_last_modified.
     bind_exn (stats_field v_stats ''timeSinceModified'') (\<lambda>v_last2.
     bind_exn (last_seen_of E (dict_get d ''LastSeen'')) (\<lambda>v_last_seen.
     Inr \<lparr> channel_data = d,
           lat = v_lat,
           lon = v_lon,
           ident = dict_get d ''ID'',
           parent = dict_get d ''ParentID'',
           ctype = (if dict_get d ''ParentID'' = PNone then ''parent'' else ''child''),
           name = dict_get d ''Label'',
           location_type = dict_get d ''DEVICE_LOCATIONTYPE'',
           current_pm2_5 = v_pm2_5,
           current_temp_f = v_temp_f,
           current_temp_c = (case v_temp_f of None \<Rightarrow> None | Some f \<Rightarrow> Some (to_celsius f)),
           current_humidity = v_humidity,
           current_pressure = v_pressure,
           current_p_0_3_um = v_p_0_3,
           current_p_0_5_um = v_p_0_5,
           current_p_1_0_um = v_p_1_0,
           current_p_2_5_um = v_p_2_5,
           current_p_5_0_um = v_p_5_0,
           current_p_10_0_um = v_p_10_0,
           current_pm1_0_cf_1 = v_pm1_0_cf_1,
           current_pm2_5_cf_1 = v_pm2_5_cf_1,
           current_pm10_0_cf_1 = v_pm10_0_cf_1,
           current_pm1_0_atm = v_pm1_0_atm,
           current_pm2_5_atm = v_pm2_5_atm,
           current_pm10_0_atm = v_pm10_0_atm,
           pm2_5stats = v_stats,
           m10avg = v_m10,
           m30avg = v_m30,
           h1ravg = v_h1,
           h6ravg = v_h6,
           d1avg = v_d1,
           w1avg = v_w1,
           last_modified_stats = v_last_modified,
           last2_modified = v_last2,
           tp_primary_channel =
             (case thingspeak_ids d of Some (pc, pk, sc, sk) \<Rightarrow> pc | None \<Rightarrow> PNone),
           tp_primary_key =
             (case thingspeak_ids d of Some (pc, pk, sc, sk) \<Rightarrow> pk | None \<Rightarrow> PNone),
           tp_secondary_channel =
             (case thingspeak_ids d of Some (pc, pk, sc, sk) \<Rightarrow> sc | None \<Rightarrow> PNone),
           tp_secondary_key =
             (case thingspeak_ids d of Some (pc, pk, sc, sk) \<Rightarrow> sk | None \<Rightarrow> PNone),
           thingspeak_primary =
             (case thingspeak_ids d of Some (pc, pk, sc, sk) \<Rightarrow> Some (pc, pk) | None \<Rightarrow> None),
           thingspeak_secondary =
             (case thingspeak_ids d of Some (pc, pk, sc, sk) \<Rightarrow> Some (sc, sk) | None \<Rightarrow> None),
           last_seen = v_last_seen,
           model = dict_get d ''Type'',
           adc = dict_get d ''Adc'',
           rssi = dict_get d ''RSSI'',
           hidden = (if py_eq_str (dict_get d ''Hidden'') ''false'' then False else True),
           flagged = (if py_eq_int (dict_get d ''Flag'') 1 then True else False),
           downgraded = (if py_eq_str (dict_get d ''A_H'') ''true'' then True else False),
           age = dict_get d ''AGE'',
           brightness = dict_get d ''DEVICE_BRIGHTNESS'',
           hardware = dict_get d ''DEVICE_HARDWAREDISCOVERED'',
           version = dict_get d ''Version'',
           last_update_check = dict_get d ''LastUpdateCheck'',
           created = dict_get d ''Created'',
           uptime = dict_get d ''Uptime'',
           is_owner = py_truthy (dict_get d ''isOwner'') \<rparr>
     )))))))))))))))))))))))))))))"

section \<open>Building the query URL\<close>

text \<open>
  The argument dictionary that \<^verbatim>\<open>get_thingspeak_url\<close> passes to \<^verbatim>\<open>urlencode\<close>:
  the caller's mapping when it is given and not empty (a copy of it), an empty
  dictionary otherwise; then every default whose key is not there yet; then
  \<^verbatim>\<open>start\<close>, and \<^verbatim>\<open>end\<close> when an end date is given.
\<close>

definition default_args :: "pyval \<Rightarrow> dict" where
  "default_args key =
     [(''api_key'', key), (''offset'', PInt 0), (''average'', PStr []), (''round'', PInt 2)]"

definition add_defaults :: "dict \<Rightarrow> dict \<Rightarrow> dict" where
  "add_defaults defaults args =
     fold (\<lambda>(k, v) a. if \<not> dict_has a k then dict_set a k v else a) defaults args"

definition thingspeak_query ::
  "pyval \<Rightarrow> datetime \<Rightarrow> datetime option \<Rightarrow> dict option \<Rightarrow> dict" where
  "thingspeak_query key start endd thingspeak_args =
     (let args0 = (case thingspeak_args of
                     Some a \<Rightarrow> if a \<noteq> [] then a else []
                   | None \<Rightarrow> []);
          args1 = add_defaults (default_args key) args0;
          args2 = dict_set args1 ''start'' (PStr (strftime_midnight start))
      in case endd of
           Some e \<Rightarrow> dict_set args2 ''end'' (PStr (strftime_midnight e))
         | None \<Rightarrow> args2)"

definition invalid_key_message :: "string \<Rightarrow> string" where
  "invalid_key_message field =
     ''Invalid ThingSpeak key: '' @ field @ ''. Must be in {'' @ [CHR 0x22] @ ''primary''
       @ [CHR 0x22] @ '', '' @ [CHR 0x22] @ ''secondary'' @ [CHR 0x22] @ ''}''"

definition get_thingspeak_url ::
  "env \<Rightarrow> channel \<Rightarrow> string \<Rightarrow> datetime \<Rightarrow> datetime option \<Rightarrow> dict option \<Rightarrow> string
     \<Rightarrow> exn + string" where
  "get_thingspeak_url E c thingspeak_field start endd thingspeak_args dataformat =
     (if thingspeak_field \<noteq> ''primary'' \<and> thingspeak_field \<noteq> ''secondary''
      then Inl (ValueError (invalid_key_message thingspeak_field))
      else
        let chan = (if thingspeak_field = ''primary''
                    then tp_primary_channel c else tp_secondary_channel c);
            key = (if thingspeak_field = ''primary''
                   then tp_primary_key c else tp_secondary_key c)
        in Inr (url_format E chan dataformat
                @ urlencode E (thingspeak_query key start endd thingspeak_args)))"

text \<open>
  The same function over a store of dictionaries, as the code runs it: the caller passes
  a reference to its mapping (or \<^verbatim>\<open>None\<close>), \<^verbatim>\<open>thingspeak_args.copy()\<close> and
  \<^verbatim>\<open>{}\<close> allocate a new dictionary, and every later assignment writes through the
  local reference. A store is the list of the dictionaries allocated so far; a
  reference is a position in it.
\<close>

type_synonym store = "dict list"

definition store_defaults :: "nat \<Rightarrow> dict \<Rightarrow> store \<Rightarrow> store" where
  "store_defaults a defaults h =
     fold (\<lambda>(k, v) h. if \<not> dict_has (h ! a) k then h[a := dict_set (h ! a) k v] else h)
       defaults h"

definition get_thingspeak_url_store ::
  "env \<Rightarrow> channel \<Rightarrow> string \<Rightarrow> datetime \<Rightarrow> datetime option \<Rightarrow> nat option \<Rightarrow> string
     \<Rightarrow> store \<Rightarrow> (exn + string) \<times> store" where
  "get_thingspeak_url_store E c thingspeak_field start endd thingspeak_args dataformat h =
     (if thingspeak_field \<noteq> ''primary'' \<and> thingspeak_field \<noteq> ''secondary''
      then (Inl (ValueError (invalid_key_message thingspeak_field)), h)
      else
        let chan = (if thingspeak_field = ''primary''
                    then tp_primary_channel c else tp_secondary_channel c);
            key = (if thingspeak_field = ''primary''
                   then tp_primary_key c else tp_secondary_key c);
            a = length h;
            h0 = (case thingspeak_args of
                    Some r \<Rightarrow> if h ! r \<noteq> [] then h @ [h ! r] else h @ [[]]
                  | None \<Rightarrow> h @ [[]]);
            h1 = store_defaults a (default_args key) h0;
            h2 = h1[a := dict_set (h1 ! a) ''start'' (PStr (strftime_midnight start))];
            h3 = (case endd of
                    Some e \<Rightarrow> h2[a := dict_set (h2 ! a) ''end'' (PStr (strftime_midnight e))]
                  | None \<Rightarrow> h2)
        in (Inr (url_format E chan dataformat @ urlencode E (h3 ! a)), h3))"

section \<open>Cleaning a table\<close>

fun col_pos :: "string list \<Rightarrow> string \<Rightarrow> nat option" where
  "col_pos [] c = None"
| "col_pos (x # xs) c = (if x = c then Some 0 else map_option Suc (col_pos xs c))"

definition cell :: "pyval list \<Rightarrow> nat \<Rightarrow> pyval" where
  "cell r i = (if i < length r then r ! i else PNone)"

definition drop_at :: "nat \<Rightarrow> 'a list \<Rightarrow> 'a list" where
  "drop_at i xs = take i xs @ drop (Suc i) xs"

text \<open>\<^verbatim>\<open>data[c]\<close>: the cells of a column, or \<^verbatim>\<open>KeyError\<close>.\<close>

definition column_values :: "frame \<Rightarrow> string \<Rightarrow> exn + pyval list" where
  "column_values f c =
     (case col_pos (columns f) c of
        None \<Rightarrow> Inl (KeyError c)
      | Some i \<Rightarrow> Inr (map (\<lambda>r. cell r i) (rows f)))"

text \<open>\<^verbatim>\<open>data.rename(columns=m, inplace=True)\<close>: names outside \<open>m\<close> stay.\<close>

definition rename_columns :: "(string \<times> string) list \<Rightarrow> frame \<Rightarrow> frame" where
  "rename_columns m f =
     f\<lparr>columns := map (\<lambda>c. case map_of m c of None \<Rightarrow> c | Some c' \<Rightarrow> c') (columns f)\<rparr>"

fun map_exn :: "('a \<Rightarrow> exn + 'b) \<Rightarrow> 'a list \<Rightarrow> exn + 'b list" where
  "map_exn g [] = Inr []"
| "map_exn g (x # xs) =
     (case g x of
        Inl e \<Rightarrow> Inl e
      | Inr y \<Rightarrow> (case map_exn g xs of Inl e \<Rightarrow> Inl e | Inr ys \<Rightarrow> Inr (y # ys)))"

definition set_column :: "frame \<Rightarrow> nat \<Rightarrow> pyval list \<Rightarrow> frame" where
  "set_column f i vs = f\<lparr>rows := map (\<lambda>(r, v). r[i := v]) (zip (rows f) vs)\<rparr>"

text \<open>
  \<^verbatim>\<open>data.index = data.pop('entry_id')\<close> inside \<^verbatim>\<open>try ... except KeyError: pass\<close>.
\<close>

definition pop_entry_id :: "frame \<Rightarrow> frame" where
  "pop_entry_id f =
     (case col_pos (columns f) ''entry_id'' of
        None \<Rightarrow> f
      | Some i \<Rightarrow>
          \<lparr> columns = drop_at i (columns f),
            rows = map (drop_at i) (rows f),
            index = map (\<lambda>r. cell r i) (rows f) \<rparr>)"

text \<open>The column table that \<^verbatim>\<open>clean_data\<close> selects from the feed and the role.\<close>

definition remap_table :: "env \<Rightarrow> string \<Rightarrow> string \<Rightarrow> (string \<times> string) list" where
  "remap_table E thingspeak_field role =
     (let parent_cols = (if thingspeak_field = ''primary''
                         then PARENT_PRIMARY_COLS E else PARENT_SECONDARY_COLS E);
          child_cols = (if thingspeak_field = ''primary''
                        then CHILD_PRIMARY_COLS E else CHILD_SECONDARY_COLS E)
      in if role = ''parent'' then parent_cols else child_cols)"

definition clean_data :: "env \<Rightarrow> channel \<Rightarrow> string \<Rightarrow> frame \<Rightarrow> exn + frame" where
  "clean_data E c thingspeak_field data =
     (let data1 = rename_columns (remap_table E thingspeak_field (ctype c)) data
      in case col_pos (columns data1) ''created_at'' of
           None \<Rightarrow> Inl (KeyError ''created_at'')
         | Some i \<Rightarrow>
             bind_exn (map_exn (to_datetime E) (map (\<lambda>r. cell r i) (rows data1))) (\<lambda>ts.
             Inr (pop_entry_id (set_column data1 i ts))))"

section \<open>Fetching historical data\<close>

text \<open>
  \<^verbatim>\<open>pd.concat(frames)\<close>: no frame at all raises \<^verbatim>\<open>ValueError\<close>; otherwise the
  columns are those of all frames in order of first appearance, the rows follow frame
  by frame, and a cell of a column a frame lacks is missing (\<^const>\<open>PNone\<close> here).
\<close>

definition union_columns :: "frame list \<Rightarrow> string list" where
  "union_columns fs =
     fold (\<lambda>f acc. acc @ filter (\<lambda>c. c \<notin> set acc) (remdups (rev (remdups (rev (columns f))))))
       fs []"

definition relayout :: "string list \<Rightarrow> frame \<Rightarrow> pyval list list" where
  "relayout cols f =
     map (\<lambda>r. map (\<lambda>c. case col_pos (columns f) c of None \<Rightarrow> PNone | Some i \<Rightarrow> cell r i) cols)
       (rows f)"

definition pd_concat :: "frame list \<Rightarrow> exn + frame" where
  "pd_concat fs =
     (if fs = [] then Inl (ValueError ''No objects to concatenate'')
      else Inr \<lparr> columns = union_columns fs,
                 rows = concat (map (relayout (union_columns fs)) fs),
                 index = concat (map index fs) \<rparr>)"

text \<open>
  \<^verbatim>\<open>pd.merge(left, right, how='inner', on=key)\<close>: every pair of a left row and a
  right row with equal key cells, in the order of the left rows; the key column once,
  and the suffixes \<^verbatim>\<open>_x\<close> and \<^verbatim>\<open>_y\<close> on the other names the two tables share.
\<close>

definition merge_columns :: "string list \<Rightarrow> string list \<Rightarrow> string \<Rightarrow> nat \<Rightarrow> string list" where
  "merge_columns lc rc key j =
     map (\<lambda>c. if c \<noteq> key \<and> c \<in> set rc then c @ ''_x'' else c) lc
     @ map (\<lambda>c. if c \<in> set lc then c @ ''_y'' else c) (drop_at j rc)"

definition pd_merge_inner :: "frame \<Rightarrow> frame \<Rightarrow> string \<Rightarrow> exn + frame" where
  "pd_merge_inner left right key =
     (case col_pos (columns left) key of
        None \<Rightarrow> Inl (KeyError key)
      | Some i \<Rightarrow>
         (case col_pos (columns right) key of
            None \<Rightarrow> Inl (KeyError key)
          | Some j \<Rightarrow>
              let rs = concat (map (\<lambda>l. map (\<lambda>r. l @ drop_at j r)
                                         (filter (\<lambda>r. cell r j = cell l i) (rows right)))
                                 (rows left))
              in Inr \<lparr> columns = merge_columns (columns left) (columns right) key j,
                         rows = rs,
                         index = map (\<lambda>n. PInt (int n)) [0..<length rs] \<rparr>))"

text \<open>
  Every function that fetches also returns the URLs it has passed to
  \<^verbatim>\<open>pd.read_csv\<close> so far, in order: the log of the network attempts.
\<close>

type_synonym fetch_log = "string list"

definition get_historical_between ::
  "env \<Rightarrow> channel \<Rightarrow> string \<Rightarrow> datetime \<Rightarrow> datetime \<Rightarrow> dict option \<Rightarrow> fetch_log
     \<Rightarrow> (exn + frame) \<times> fetch_log" where
  "get_historical_between E c thingspeak_field first_date last_date thingspeak_args lg =
     (case get_thingspeak_url E c thingspeak_field first_date (Some last_date)
             thingspeak_args ''csv'' of
        Inl e \<Rightarrow> (Inl e, lg)
      | Inr url \<Rightarrow>
         (case read_csv E url of
            Inl e \<Rightarrow> (Inl e, lg @ [url])
          | Inr data \<Rightarrow> (clean_data E c thingspeak_field data, lg @ [url])))"

text \<open>The local variables of \<^verbatim>\<open>get_historical\<close> that its loops change.\<close>

record hist_state =
  start_date :: datetime
  to_week :: datetime
  weekly_data :: "frame list"
  weeks_to_get :: int

text \<open>One pass through the body of the \<^verbatim>\<open>for\<close> loop.\<close>

definition hist_body ::
  "env \<Rightarrow> channel \<Rightarrow> string \<Rightarrow> dict option \<Rightarrow> hist_state \<Rightarrow> fetch_log
     \<Rightarrow> (exn + hist_state) \<times> fetch_log" where
  "hist_body E c thingspeak_field thingspeak_args s lg =
     (let sd = to_week s
      in case sub_weeks (to_week s) 1 of
           Inl e \<Rightarrow> (Inl e, lg)
         | Inr tw \<Rightarrow>
            (case get_thingspeak_url E c thingspeak_field tw (Some sd) thingspeak_args ''csv'' of
               Inl e \<Rightarrow> (Inl e, lg)
             | Inr url \<Rightarrow>
                (case read_csv E url of
                   Inl e \<Rightarrow> (Inl e, lg @ [url])
                 | Inr data \<Rightarrow>
                     (Inr \<lparr> start_date = sd, to_week = tw,
                             weekly_data = weekly_data s @ [data],
                             weeks_to_get = weeks_to_get s - 1 \<rparr>,
                      lg @ [url]))))"

text \<open>\<^verbatim>\<open>for _ in range(k)\<close>: the body \<open>k\<close> times, unless it raises.\<close>

fun hist_for ::
  "env \<Rightarrow> channel \<Rightarrow> string \<Rightarrow> dict option \<Rightarrow> nat \<Rightarrow> hist_state \<Rightarrow> fetch_log
     \<Rightarrow> (exn + hist_state) \<times> fetch_log" where
  "hist_for E c thingspeak_field thingspeak_args 0 s lg = (Inr s, lg)"
| "hist_for E c thingspeak_field thingspeak_args (Suc k) s lg =
     (case hist_body E c thingspeak_field thingspeak_args s lg of
        (Inl e, lg') \<Rightarrow> (Inl e, lg')
      | (Inr s', lg') \<Rightarrow> hist_for E c thingspeak_field thingspeak_args k s' lg')"

lemma hist_for_weeks:
  "hist_for E c fld args k s lg = (Inr s', lg') \<Longrightarrow> weeks_to_get s' = weeks_to_get s - int k"
proof (induction k arbitrary: s lg)
  case 0
  then show ?case by simp
next
  case (Suc k)
  from Suc.prems obtain s1 lg1 where
    b: "hist_body E c fld args s lg = (Inr s1, lg1)" and
    r: "hist_for E c fld args k s1 lg1 = (Inr s', lg')"
    by (auto split: prod.splits sum.splits)
  from b have "weeks_to_get s1 = weeks_to_get s - 1"
    by (auto simp: hist_body_def Let_def split: sum.splits)
  with Suc.IH [OF r] show ?case by simp
qed

text \<open>
  \<^verbatim>\<open>while weeks_to_get > 0: for _ in range(weeks_to_get): ...\<close>: the range is fixed
  when the \<^verbatim>\<open>for\<close> loop starts.
\<close>

function hist_while ::
  "env \<Rightarrow> channel \<Rightarrow> string \<Rightarrow> dict option \<Rightarrow> hist_state \<Rightarrow> fetch_log
     \<Rightarrow> (exn + hist_state) \<times> fetch_log" where
  "hist_while E c thingspeak_field thingspeak_args s lg =
     (if 0 < weeks_to_get s
      then (case hist_for E c thingspeak_field thingspeak_args (nat (weeks_to_get s)) s lg of
              (Inl e, lg') \<Rightarrow> (Inl e, lg')
            | (Inr s', lg') \<Rightarrow> hist_while E c thingspeak_field thingspeak_args s' lg')
      else (Inr s, lg))"
  by pat_completeness auto
termination
proof (relation "measure (\<lambda>(E, c, fld, args, s, lg). nat (weeks_to_get s))")
  show "wf (measure (\<lambda>(E, c, fld, args, s, lg). nat (weeks_to_get s)))" by simp
next
  fix E c fld args s lg x y b
  assume pos: "0 < weeks_to_get s"
    and r: "(x, y) = hist_for E c fld args (nat (weeks_to_get s)) s lg"
    and x: "x = Inr b"
  from r x have "hist_for E c fld args (nat (weeks_to_get s)) s lg = (Inr b, y)" by simp
  from hist_for_weeks [OF this] pos have "weeks_to_get b = 0" by simp
  with pos show "((E, c, fld, args, b, y), (E, c, fld, args, s, lg))
      \<in> measure (\<lambda>(E, c, fld, args, s, lg). nat (weeks_to_get s))" by simp
qed

definition get_historical ::
  "env \<Rightarrow> channel \<Rightarrow> int \<Rightarrow> string \<Rightarrow> datetime \<Rightarrow> dict option \<Rightarrow> fetch_log
     \<Rightarrow> (exn + frame) \<times> fetch_log" where
  "get_historical E c n thingspeak_field start thingspeak_args lg =
     (case sub_weeks start 1 of
        Inl e \<Rightarrow> (Inl e, lg)
      | Inr tw \<Rightarrow>
         (case hist_while E c thingspeak_field thingspeak_args
                 \<lparr> start_date = start, to_week = tw, weekly_data = [], weeks_to_get = n \<rparr> lg of
            (Inl e, lg') \<Rightarrow> (Inl e, lg')
          | (Inr s, lg') \<Rightarrow>
              (bind_exn (pd_concat (weekly_data s)) (clean_data E c thingspeak_field), lg')))"

definition get_all_historical ::
  "env \<Rightarrow> channel \<Rightarrow> int \<Rightarrow> datetime \<Rightarrow> dict option \<Rightarrow> fetch_log
     \<Rightarrow> (exn + frame) \<times> fetch_log" where
  "get_all_historical E c n start thingspeak_args lg =
     (case get_historical E c n ''primary'' start thingspeak_args lg of
        (Inl e, lg1) \<Rightarrow> (Inl e, lg1)
      | (Inr primary, lg1) \<Rightarrow>
         (case get_historical E c n ''secondary'' start thingspeak_args lg1 of
            (Inl e, lg2) \<Rightarrow> (Inl e, lg2)
          | (Inr secondary, lg2) \<Rightarrow> (pd_merge_inner primary secondary ''created_at'', lg2)))"

definition get_all_historical_between ::
  "env \<Rightarrow> channel \<Rightarrow> datetime \<Rightarrow> datetime \<Rightarrow> dict option \<Rightarrow> fetch_log
     \<Rightarrow> (exn + frame) \<times> fetch_log" where
  "get_all_historical_between E c first_date last_date thingspeak_args lg =
     (case get_historical_between E c ''primary'' first_date last_date thingspeak_args lg of
        (Inl e, lg1) \<Rightarrow> (Inl e, lg1)
      | (Inr primary, lg1) \<Rightarrow>
         (case get_historical_between E c ''secondary'' first_date last_date
                 thingspeak_args lg1 of
            (Inl e, lg2) \<Rightarrow> (Inl e, lg2)
          | (Inr secondary, lg2) \<Rightarrow> (pd_merge_inner primary secondary ''created_at'', lg2)))"

section \<open>Exporting a record\<close>

definition of_float :: "pyfloat option \<Rightarrow> pyval" where
  "of_float x = (case x of None \<Rightarrow> PNone | Some f \<Rightarrow> PFloat f)"

definition of_datetime :: "datetime option \<Rightarrow> pyval" where
  "of_datetime x = (case x of None \<Rightarrow> PNone | Some t \<Rightarrow> PDatetime t)"

definition as_dict :: "channel \<Rightarrow> (string \<times> dict) list" where
  "as_dict c =
     [(''meta'',
        [(''id'', ident c),
         (''parent'', parent c),
         (''lat'', of_float (lat c)),
         (''lon'', of_float (lon c)),
         (''name'', name c),
         (''location_type'', location_type c)]),
      (''data'',
        [(''pm_2.5'', of_float (current_pm2_5 c)),
         (''temp_f'', of_float (current_temp_f c)),
         (''temp_c'', of_float (current_temp_c c)),
         (''humidity'', of_float (current_humidity c)),
         (''pressure'', of_float (current_pressure c)),
         (''p_0_3_um'', of_float (current_p_0_3_um c)),
         (''p_0_5_um'', of_float (current_p_0_5_um c)),
         (''p_1_0_um'', of_float (current_p_1_0_um c)),
         (''p_2_5_um'', of_float (current_p_2_5_um c)),
         (''p_5_0_um'', of_float (current_p_5_0_um c)),
         (''p_10_0_um'', of_float (current_p_10_0_um c)),
         (''pm1_0_cf_1'', of_float (current_pm1_0_cf_1 c)),
         (''pm2_5_cf_1'', of_float (current_pm2_5_cf_1 c)),
         (''pm10_0_cf_1'', of_float (current_pm10_0_cf_1 c)),
         (''pm1_0_atm'', of_float (current_pm1_0_atm c)),
         (''pm2_5_atm'', of_float (current_pm2_5_atm c)),
         (''pm10_0_atm'', of_float (current_pm10_0_atm c))]),
      (''diagnostic'',
        [(''last_seen'', of_datetime (last_seen c)),
         (''model'', model c),
         (''adc'', adc c),
         (''rssi'', rssi c),
         (''hidden'', PBool (hidden c)),
         (''flagged'', PBool (flagged c)),
         (''downgraded'', PBool (downgraded c)),
         (''age'', age c),
         (''brightness'', brightness c),
         (''hardware'', hardware c),
         (''version'', version c),
         (''last_update_check'', last_update_check c),
         (''created'', created c),
         (''uptime'', uptime c),
         (''is_owner'', PBool (is_owner c))]),
      (''statistics'',
        [(''10min_avg'', m10avg c),
         (''30min_avg'', m30avg c),
         (''1hour_avg'', h1ravg c),
         (''6hour_avg'', h6ravg c),
         (''1day_avg'', d1avg c),
         (''1week_avg'', w1avg c)])]"

text \<open>\<^verbatim>\<open>nested[category]\<close> for a category that the loop has just read from \<open>nested\<close>.\<close>

definition nested_item :: "(string \<times> dict) list \<Rightarrow> string \<Rightarrow> dict" where
  "nested_item nested category = (case map_of nested category of None \<Rightarrow> [] | Some d \<Rightarrow> d)"

definition as_flat_dict :: "channel \<Rightarrow> dict" where
  "as_flat_dict c =
     (let nested = as_dict c
      in fold (\<lambda>category out_d.
                 fold (\<lambda>prop out_d. dict_set out_d prop (dict_get (nested_item nested category) prop))
                   (map fst (nested_item nested category)) out_d)
           (map fst nested) [])"

text \<open>The keys of one category of the nested mapping.\<close>

definition category_keys :: "channel \<Rightarrow> string \<Rightarrow> string list" where
  "category_keys c category = map fst (nested_item (as_dict c) category)"

section \<open>A concrete environment\<close>

text \<open>
  An instance of the environment for evaluating the model on concrete inputs. It follows
  the documented behaviour of the library functions on the values used below:
  numbers and ASCII text. The constants of \<^verbatim>\<open>api_data\<close> are not part of the sources
  at hand; the URL template and the column tables here are sample values.
\<close>

definition is_ws :: "char \<Rightarrow> bool" where
  "is_ws ch = (ch = CHR '' '' \<or> ch = CHR 0x09 \<or> ch = CHR 0x0A \<or> ch = CHR 0x0D)"

definition is_digit :: "char \<Rightarrow> bool" where
  "is_digit ch = (48 \<le> (of_char ch :: nat) \<and> (of_char ch :: nat) \<le> 57)"

definition digit_val :: "char \<Rightarrow> nat" where
  "digit_val ch = of_char ch - 48"

definition strip_ws :: "string \<Rightarrow> string" where
  "strip_ws s = rev (dropWhile is_ws (rev (dropWhile is_ws s)))"

text \<open>The value of a run of decimal digits, most significant first.\<close>

definition digits_val :: "string \<Rightarrow> nat" where
  "digits_val s = foldl (\<lambda>acc ch. 10 * acc + digit_val ch) 0 s"

text \<open>\<^verbatim>\<open>int(s)\<close> on text: optional blanks, an optional sign, one or more digits.\<close>

definition int_of_string :: "string \<Rightarrow> int option" where
  "int_of_string s0 =
     (let s = strip_ws s0;
          neg = (s \<noteq> [] \<and> hd s = CHR ''-'');
          body = (if s \<noteq> [] \<and> (hd s = CHR ''-'' \<or> hd s = CHR ''+'') then tl s else s)
      in if body \<noteq> [] \<and> list_all is_digit body
         then Some (if neg then - int (digits_val body) else int (digits_val body))
         else None)"

text \<open>
  \<^verbatim>\<open>float(s)\<close> on text: optional blanks and sign, then digits with an optional
  fraction and an optional exponent.
\<close>

definition split_at_char :: "char \<Rightarrow> string \<Rightarrow> string \<times> string option" where
  "split_at_char ch s =
     (case dropWhile (\<lambda>x. x \<noteq> ch) s of
        [] \<Rightarrow> (s, None)
      | _ # r \<Rightarrow> (takeWhile (\<lambda>x. x \<noteq> ch) s, Some r))"

definition float_of_string :: "string \<Rightarrow> real option" where
  "float_of_string s0 =
     (let s = map (\<lambda>ch. if ch = CHR ''E'' then CHR ''e'' else ch) (strip_ws s0);
          neg = (s \<noteq> [] \<and> hd s = CHR ''-'');
          body = (if s \<noteq> [] \<and> (hd s = CHR ''-'' \<or> hd s = CHR ''+'') then tl s else s);
          (mant, ex) = split_at_char CHR ''e'' body;
          (ip, fp) = split_at_char CHR ''.'' mant;
          frac = (case fp of None \<Rightarrow> [] | Some f \<Rightarrow> f);
          e = (case ex of None \<Rightarrow> Some 0 | Some t \<Rightarrow> int_of_string t)
      in if (ip \<noteq> [] \<or> frac \<noteq> []) \<and> list_all is_digit ip \<and> list_all is_digit frac
            \<and> (case ex of None \<Rightarrow> True | Some t \<Rightarrow> t \<noteq> [] \<and> \<not> list_ex is_ws t)
         then (case e of
                 None \<Rightarrow> None
               | Some k \<Rightarrow>
                   let m = real (digits_val (ip @ frac)) / 10 ^ length frac;
                       v = (if 0 \<le> k then m * 10 ^ nat k else m / 10 ^ nat (- k))
                   in Some (if neg then - v else v))
         else None)"

definition ex_float :: "pyval \<Rightarrow> exn + pyfloat" where
  "ex_float v =
     (case v of
        PInt i \<Rightarrow> if 2 ^ 1024 - 2 ^ 970 \<le> \<bar>i\<bar> then Inl OverflowError else Inr (Fin (real_of_int i))
      | PBool b \<Rightarrow> Inr (Fin (if b then 1 else 0))
      | PFloat f \<Rightarrow> Inr f
      | PStr s \<Rightarrow>
          (let t = map (\<lambda>ch. if 65 \<le> (of_char ch :: nat) \<and> (of_char ch :: nat) \<le> 90
                              then char_of ((of_char ch :: nat) + 32) else ch) (strip_ws s)
           in if t = ''nan'' \<or> t = ''+nan'' \<or> t = ''-nan'' then Inr NaN
              else if t = ''inf'' \<or> t = ''+inf'' \<or> t = ''infinity'' \<or> t = ''+infinity''
                then Inr PosInf
              else if t = ''-inf'' \<or> t = ''-infinity'' then Inr NegInf
              else (case float_of_string s of
                      None \<Rightarrow> Inl (ValueError ''could not convert string to float'')
                    | Some r \<Rightarrow> Inr (Fin r)))
      | _ \<Rightarrow> Inl TypeError)"

definition ex_int :: "pyval \<Rightarrow> exn + int" where
  "ex_int v =
     (case v of
        PInt i \<Rightarrow> Inr i
      | PBool b \<Rightarrow> Inr (if b then 1 else 0)
      | PFloat (Fin r) \<Rightarrow> Inr (if 0 \<le> r then \<lfloor>r\<rfloor> else \<lceil>r\<rceil>)
      | PFloat NaN \<Rightarrow> Inl (ValueError ''cannot convert float NaN to integer'')
      | PFloat _ \<Rightarrow> Inl OverflowError
      | PStr s \<Rightarrow>
          (case int_of_string s of
             None \<Rightarrow> Inl (ValueError ''invalid literal for int() with base 10'')
           | Some i \<Rightarrow> Inr i)
      | _ \<Rightarrow> Inl TypeError)"

text \<open>
  \<^verbatim>\<open>datetime.utcfromtimestamp\<close>: seconds since 1970-01-01 (ordinal 719163), rounded
  to microseconds, half to even; a year outside 1 to 9999 raises.
\<close>

definition round_half_even :: "real \<Rightarrow> int" where
  "round_half_even x =
     (let f = \<lfloor>x\<rfloor>; d = x - real_of_int f
      in if d < 1 / 2 then f else if 1 / 2 < d then f + 1 else if even f then f else f + 1)"

definition from_micros :: "int \<Rightarrow> exn + datetime" where
  "from_micros us =
     (let o' = 719163 + us div 86400000000
      in if o' < 1 \<or> max_ordinal < o' then Inl (ValueError ''year is out of range'')
         else Inr \<lparr> dt_ordinal = o', dt_micros = us mod 86400000000 \<rparr>)"

definition ex_utcfromtimestamp :: "pyval \<Rightarrow> exn + datetime" where
  "ex_utcfromtimestamp v =
     (case v of
        PInt i \<Rightarrow> from_micros (i * 1000000)
      | PBool b \<Rightarrow> from_micros (if b then 1000000 else 0)
      | PFloat (Fin r) \<Rightarrow> from_micros (round_half_even (r * 1000000))
      | PFloat NaN \<Rightarrow> Inl (ValueError ''cannot convert float NaN to integer'')
      | PFloat _ \<Rightarrow> Inl OverflowError
      | _ \<Rightarrow> Inl TypeError)"

text \<open>
  \<^verbatim>\<open>str(x)\<close> on the scalars: \<^verbatim>\<open>None\<close>, booleans, integers, text, a date with its
  time, and the floats that are whole numbers or not finite. Other floats, lists and
  dictionaries do not occur in the evaluations below and are rendered as a mark.
\<close>

definition int_str :: "int \<Rightarrow> string" where
  "int_str i = (if i < 0 then CHR ''-'' # digits10 (nat (- i)) else digits10 (nat i))"

definition pad6 :: "nat \<Rightarrow> string" where
  "pad6 n = replicate (6 - length (digits10 n)) CHR ''0'' @ digits10 n"

definition datetime_str :: "datetime \<Rightarrow> string" where
  "datetime_str d =
     (case ord2ymd (dt_ordinal d) of (y, m, dd) \<Rightarrow>
        let secs = nat (dt_micros d div 1000000); us = nat (dt_micros d mod 1000000)
        in replicate (4 - length (digits10 (nat y))) CHR ''0'' @ digits10 (nat y)
           @ ''-'' @ pad2 (nat m) @ ''-'' @ pad2 (nat dd) @ '' ''
           @ pad2 (secs div 3600) @ '':'' @ pad2 (secs mod 3600 div 60) @ '':''
           @ pad2 (secs mod 60) @ (if us = 0 then [] else ''.'' @ pad6 us))"

definition ex_str :: "pyval \<Rightarrow> string" where
  "ex_str v =
     (case v of
        PNone \<Rightarrow> ''None''
      | PBool b \<Rightarrow> (if b then ''True'' else ''False'')
      | PInt i \<Rightarrow> int_str i
      | PStr s \<Rightarrow> s
      | PDatetime d \<Rightarrow> datetime_str d
      | PFloat NaN \<Rightarrow> ''nan''
      | PFloat PosInf \<Rightarrow> ''inf''
      | PFloat NegInf \<Rightarrow> ''-inf''
      | PFloat (Fin r) \<Rightarrow>
          (if r = real_of_int \<lfloor>r\<rfloor> \<and> \<bar>r\<bar> < 10 ^ 16 then int_str \<lfloor>r\<rfloor> @ ''.0'' else ''?'')
      | _ \<Rightarrow> ''?'')"

text \<open>
  \<^verbatim>\<open>urllib.parse.quote_plus\<close> and \<^verbatim>\<open>urlencode\<close>: letters, digits and
  \<^verbatim>\<open>_.-~\<close> stay, a blank becomes \<^verbatim>\<open>+\<close>, every other byte is \<^verbatim>\<open>%XX\<close>.
\<close>

definition hex_char :: "nat \<Rightarrow> char" where
  "hex_char n = (if n < 10 then char_of (48 + n) else char_of (55 + n))"

definition is_unreserved :: "char \<Rightarrow> bool" where
  "is_unreserved ch =
     (let n = (of_char ch :: nat)
      in (48 \<le> n \<and> n \<le> 57) \<or> (65 \<le> n \<and> n \<le> 90) \<or> (97 \<le> n \<and> n \<le> 122)
         \<or> ch = CHR ''_'' \<or> ch = CHR ''.'' \<or> ch = CHR ''-'' \<or> ch = CHR ''~'')"

definition quote_plus :: "string \<Rightarrow> string" where
  "quote_plus s =
     concat (map (\<lambda>ch. if is_unreserved ch then [ch]
                        else if ch = CHR '' '' then ''+''
                        else [CHR ''%'', hex_char ((of_char ch :: nat) div 16),
                              hex_char ((of_char ch :: nat) mod 16)]) s)"

fun join_amp :: "string list \<Rightarrow> string" where
  "join_amp [] = []"
| "join_amp [x] = x"
| "join_amp (x # y # ys) = x @ ''&'' @ join_amp (y # ys)"

definition ex_urlencode :: "dict \<Rightarrow> string" where
  "ex_urlencode d = join_amp (map (\<lambda>(k, v). quote_plus k @ ''='' @ quote_plus (ex_str v)) d)"

definition ex_url_format :: "pyval \<Rightarrow> string \<Rightarrow> string" where
  "ex_url_format chan dataformat =
     ''https://thingspeak.com/channels/'' @ ex_str chan @ ''/feed.'' @ dataformat @ ''?''"

text \<open>
  \<^verbatim>\<open>json.loads\<close>: the JSON grammar with Python's extra literals. A number with a
  fraction or an exponent is a float, any other an integer. The parser carries a step
  budget so that its recursion is structural; twice the length of the text suffices.
\<close>

definition hex_val :: "char \<Rightarrow> nat option" where
  "hex_val ch =
     (let n = (of_char ch :: nat)
      in if 48 \<le> n \<and> n \<le> 57 then Some (n - 48)
         else if 65 \<le> n \<and> n \<le> 70 then Some (n - 55)
         else if 97 \<le> n \<and> n \<le> 102 then Some (n - 87)
         else None)"

definition hex4 :: "string \<Rightarrow> nat option" where
  "hex4 s =
     (case map hex_val (take 4 s) of
        [Some a, Some b, Some c, Some d] \<Rightarrow> Some (((a * 16 + b) * 16 + c) * 16 + d)
      | _ \<Rightarrow> None)"

definition utf8 :: "nat \<Rightarrow> string" where
  "utf8 cp =
     (if cp < 128 then [char_of cp]
      else if cp < 2048 then [char_of (192 + cp div 64), char_of (128 + cp mod 64)]
      else if cp < 65536
        then [char_of (224 + cp div 4096), char_of (128 + cp div 64 mod 64),
              char_of (128 + cp mod 64)]
      else [char_of (240 + cp div 262144), char_of (128 + cp div 4096 mod 64),
            char_of (128 + cp div 64 mod 64), char_of (128 + cp mod 64)])"

text \<open>The text after an opening quote: the decoded string and what follows its end.\<close>

fun json_string :: "string \<Rightarrow> string \<Rightarrow> (string \<times> string) option" where
  "json_string acc [] = None"
| "json_string acc [ch] = (if ch = CHR 0x22 then Some (rev acc, []) else None)"
| "json_string acc (ch # e # cs) =
     (if ch = CHR 0x22 then Some (rev acc, e # cs)
      else if ch = CHR 0x5C
        then (if e = CHR 0x22 \<or> e = CHR 0x5C \<or> e = CHR ''/'' then json_string (e # acc) cs
              else if e = CHR ''b'' then json_string (CHR 0x08 # acc) cs
              else if e = CHR ''f'' then json_string (CHR 0x0C # acc) cs
              else if e = CHR ''n'' then json_string (CHR 0x0A # acc) cs
              else if e = CHR ''r'' then json_string (CHR 0x0D # acc) cs
              else if e = CHR ''t'' then json_string (CHR 0x09 # acc) cs
              else if e = CHR ''u''
                then (case hex4 cs of
                        None \<Rightarrow> None
                      | Some hi \<Rightarrow>
                          (case (if 55296 \<le> hi \<and> hi < 56320 \<and> take 2 (drop 4 cs) = [CHR 0x5C, CHR ''u'']
                                 then hex4 (drop 6 cs) else None) of
                             Some lo \<Rightarrow>
                               if 56320 \<le> lo \<and> lo < 57344
                               then json_string
                                      (rev (utf8 (65536 + (hi - 55296) * 1024 + (lo - 56320))) @ acc)
                                      (drop 10 cs)
                               else json_string (rev (utf8 hi) @ acc) (drop 4 cs)
                           | None \<Rightarrow> json_string (rev (utf8 hi) @ acc) (drop 4 cs)))
              else None)
      else if (of_char ch :: nat) < 32 then None
      else json_string (ch # acc) (e # cs))"

text \<open>A JSON number at the head of the text.\<close>

definition json_number :: "string \<Rightarrow> (pyval \<times> string) option" where
  "json_number s =
     (let neg = (s \<noteq> [] \<and> hd s = CHR ''-'');
          s1 = (if neg then tl s else s);
          ip = takeWhile is_digit s1;
          r1 = dropWhile is_digit s1;
          has_frac = (r1 \<noteq> [] \<and> hd r1 = CHR ''.'' \<and> takeWhile is_digit (tl r1) \<noteq> []);
          frac = (if has_frac then takeWhile is_digit (tl r1) else []);
          r2 = (if has_frac then dropWhile is_digit (tl r1) else r1);
          r3 = (if r2 \<noteq> [] \<and> (hd r2 = CHR ''e'' \<or> hd r2 = CHR ''E'') then tl r2 else []);
          esign = (r3 \<noteq> [] \<and> (hd r3 = CHR ''-'' \<or> hd r3 = CHR ''+''));
          r4 = (if esign then tl r3 else r3);
          has_exp = (takeWhile is_digit r4 \<noteq> []);
          ex = int (digits_val (takeWhile is_digit r4));
          k = (if r3 \<noteq> [] \<and> hd r3 = CHR ''-'' then - ex else ex);
          rest = (if has_exp then dropWhile is_digit r4 else r2)
      in if ip = [] \<or> (hd ip = CHR ''0'' \<and> tl ip \<noteq> []) then None
         else if has_frac \<or> has_exp
           then (let m = real (digits_val (ip @ frac)) / 10 ^ length frac;
                     v = (if has_exp then (if 0 \<le> k then m * 10 ^ nat k else m / 10 ^ nat (- k))
                          else m)
                 in Some (PFloat (Fin (if neg then - v else v)), rest))
           else Some (PInt (if neg then - int (digits_val ip) else int (digits_val ip)), rest))"

definition json_literal :: "string \<Rightarrow> (pyval \<times> string) option" where
  "json_literal s =
     (if take 4 s = ''null'' then Some (PNone, drop 4 s)
      else if take 4 s = ''true'' then Some (PBool True, drop 4 s)
      else if take 5 s = ''false'' then Some (PBool False, drop 5 s)
      else if take 3 s = ''NaN'' then Some (PFloat NaN, drop 3 s)
      else if take 8 s = ''Infinity'' then Some (PFloat PosInf, drop 8 s)
      else if take 9 s = ''-Infinity'' then Some (PFloat NegInf, drop 9 s)
      else json_number s)"

fun json_value :: "nat \<Rightarrow> string \<Rightarrow> (pyval \<times> string) option"
  and json_elems :: "nat \<Rightarrow> pyval list \<Rightarrow> string \<Rightarrow> (pyval \<times> string) option"
  and json_members :: "nat \<Rightarrow> dict \<Rightarrow> string \<Rightarrow> (pyval \<times> string) option" where
  "json_value 0 s = None"
| "json_value (Suc n) [] = None"
| "json_value (Suc n) (ch # cs) =
     (if ch = CHR 0x22
        then (case json_string [] cs of None \<Rightarrow> None | Some (t, r) \<Rightarrow> Some (PStr t, r))
      else if ch = CHR ''{''
        then (case dropWhile is_ws cs of
                [] \<Rightarrow> None
              | x # r \<Rightarrow> if x = CHR ''}'' then Some (PDict [], r) else json_members n [] (x # r))
      else if ch = CHR ''[''
        then (case dropWhile is_ws cs of
                [] \<Rightarrow> None
              | x # r \<Rightarrow> if x = CHR '']'' then Some (PList [], r) else json_elems n [] (x # r))
      else json_literal (ch # cs))"
| "json_elems 0 acc s = None"
| "json_elems (Suc n) acc s =
     (case json_value n s of
        None \<Rightarrow> None
      | Some (v, r) \<Rightarrow>
         (case dropWhile is_ws r of
            [] \<Rightarrow> None
          | x # r' \<Rightarrow>
              if x = CHR '','' then json_elems n (acc @ [v]) (dropWhile is_ws r')
              else if x = CHR '']'' then Some (PList (acc @ [v]), r')
              else None))"
| "json_members 0 acc s = None"
| "json_members (Suc n) acc [] = None"
| "json_members (Suc n) acc (ch # cs) =
     (if ch \<noteq> CHR 0x22 then None
      else (case json_string [] cs of
              None \<Rightarrow> None
            | Some (k, r) \<Rightarrow>
               (case dropWhile is_ws r of
                  [] \<Rightarrow> None
                | x # r1 \<Rightarrow>
                    if x \<noteq> CHR '':'' then None
                    else (case json_value n (dropWhile is_ws r1) of
                            None \<Rightarrow> None
                          | Some (v, r2) \<Rightarrow>
                             (case dropWhile is_ws r2 of
                                [] \<Rightarrow> None
                              | y # r3 \<Rightarrow>
                                  if y = CHR '','' then json_members n (dict_set acc k v)
                                                          (dropWhile is_ws r3)
                                  else if y = CHR ''}'' then Some (PDict (dict_set acc k v), r3)
                                  else None)))))"

definition ex_json_loads :: "pyval \<Rightarrow> exn + pyval" where
  "ex_json_loads v =
     (case v of
        PStr s \<Rightarrow>
          (case json_value (2 * length s + 2) (dropWhile is_ws s) of
             None \<Rightarrow> Inl JSONDecodeError
           | Some (x, r) \<Rightarrow> if dropWhile is_ws r = [] then Inr x else Inl JSONDecodeError)
      | _ \<Rightarrow> Inl TypeError)"

text \<open>
  \<^verbatim>\<open>pd.to_datetime(cell, format='%Y-%m-%d %H:%M:%S %Z')\<close> on one cell: a missing
  cell stays missing, text of the shape \<^verbatim>\<open>2021-01-08 12:30:00 UTC\<close> becomes a
  timestamp, anything else raises \<^verbatim>\<open>ValueError\<close>.
\<close>

definition is_leap :: "int \<Rightarrow> bool" where
  "is_leap y = (y mod 4 = 0 \<and> (y mod 100 \<noteq> 0 \<or> y mod 400 = 0))"

definition ymd2ord :: "int \<Rightarrow> int \<Rightarrow> int \<Rightarrow> int" where
  "ymd2ord y m d =
     (y - 1) * 365 + (y - 1) div 4 - (y - 1) div 100 + (y - 1) div 400
     + days_before_month ! nat (m - 1) + (if 2 < m \<and> is_leap y then 1 else 0) + d"

definition ex_to_datetime :: "pyval \<Rightarrow> exn + pyval" where
  "ex_to_datetime v =
     (case v of
        PNone \<Rightarrow> Inr PNone
      | PStr s \<Rightarrow>
          (let num = (\<lambda>i n. int (digits_val (take n (drop i s))));
               y = num 0 4; m = num 5 2; d = num 8 2; hh = num 11 2; mm = num 14 2; ss = num 17 2
           in if length s = 23
                 \<and> list_all is_digit (take 4 s @ take 2 (drop 5 s) @ take 2 (drop 8 s)
                      @ take 2 (drop 11 s) @ take 2 (drop 14 s) @ take 2 (drop 17 s))
                 \<and> map (\<lambda>i. s ! i) [4, 7, 10, 13, 16, 19] = ''-- :: ''
                 \<and> drop 20 s = ''UTC''
                 \<and> 1 \<le> y \<and> 1 \<le> m \<and> m \<le> 12 \<and> 1 \<le> d
                 \<and> d \<le> days_in_month ! nat (m - 1) + (if m = 2 \<and> is_leap y then 1 else 0)
                 \<and> hh < 24 \<and> mm < 60 \<and> ss < 60
              then Inr (PDatetime \<lparr> dt_ordinal = ymd2ord y m d,
                                     dt_micros = ((hh * 60 + mm) * 60 + ss) * 1000000 \<rparr>)
              else Inl (ValueError ''time data does not match format''))
      | _ \<Rightarrow> Inl (ValueError ''time data does not match format''))"

text \<open>
  Two stand-ins for the remote service behind \<^verbatim>\<open>pd.read_csv\<close>: one that answers
  every URL with the header line of a ThingSpeak feed and no rows, and one that serves a
  given table per URL and fails on every other URL.
\<close>

definition header_only :: "string \<Rightarrow> exn + frame" where
  "header_only url =
     Inr \<lparr> columns = [''created_at'', ''entry_id'', ''field1'', ''field2'', ''field3'',
                        ''field4'', ''field5'', ''field6'', ''field7'', ''field8''],
           rows = [], index = [] \<rparr>"

definition served :: "(string \<times> frame) list \<Rightarrow> string \<Rightarrow> exn + frame" where
  "served tables url =
     (case map_of tables url of
        None \<Rightarrow> Inl (OtherError ''HTTP Error 404'')
      | Some f \<Rightarrow> Inr f)"

definition example_env :: env where
  "example_env =
     \<lparr> py_float = ex_float,
       py_int = ex_int,
       json_loads = ex_json_loads,
       utcfromtimestamp = ex_utcfromtimestamp,
       url_format = ex_url_format,
       urlencode = ex_urlencode,
       read_csv = header_only,
       to_datetime = ex_to_datetime,
       PARENT_PRIMARY_COLS =
         [(''created_at'', ''created_at''), (''entry_id'', ''entry_id''),
          (''field1'', ''PM1.0_CF1_ug/m3''), (''field2'', ''PM2.5_CF1_ug/m3''),
          (''field3'', ''PM10.0_CF1_ug/m3''), (''field4'', ''UptimeMinutes''),
          (''field5'', ''ADC''), (''field6'', ''Temperature_F''),
          (''field7'', ''Humidity_%''), (''field8'', ''PM2.5_ATM_ug/m3'')],
       PARENT_SECONDARY_COLS =
         [(''created_at'', ''created_at''), (''entry_id'', ''entry_id''),
          (''field1'', ''0.3um/dl''), (''field2'', ''0.5um/dl''),
          (''field3'', ''1.0um/dl''), (''field4'', ''2.5um/dl''),
          (''field5'', ''5.0um/dl''), (''field6'', ''10.0um/dl''),
          (''field7'', ''PM1.0_ATM_ug/m3''), (''field8'', ''PM10_ATM_ug/m3'')],
       CHILD_PRIMARY_COLS =
         [(''created_at'', ''created_at''), (''entry_id'', ''entry_id''),
          (''field1'', ''PM1.0_CF1_ug/m3''), (''field2'', ''PM2.5_CF1_ug/m3''),
          (''field3'', ''PM10.0_CF1_ug/m3''), (''field4'', ''UptimeMinutes''),
          (''field5'', ''RSSI_dbm''), (''field6'', ''Pressure_hpa''),
          (''field7'', ''IAQ''), (''field8'', ''PM2.5_ATM_ug/m3'')],
       CHILD_SECONDARY_COLS =
         [(''created_at'', ''created_at''), (''entry_id'', ''entry_id''),
          (''field1'', ''0.3um/dl''), (''field2'', ''0.5um/dl''),
          (''field3'', ''1.0um/dl''), (''field4'', ''2.5um/dl''),
          (''field5'', ''5.0um/dl''), (''field6'', ''10.0um/dl''),
          (''field7'', ''PM1.0_ATM_ug/m3''), (''field8'', ''PM10_ATM_ug/m3'')] \<rparr>"

section \<open>Basic facts about dictionaries\<close>

lemma dict_has_set: "dict_has (dict_set d k v) k' = (k' = k \<or> dict_has d k')"
  by (simp add: dict_has_def dict_set_def update_conv')

lemma dict_get_set: "dict_get (dict_set d k v) k' = (if k' = k then v else dict_get d k')"
  by (simp add: dict_get_def dict_set_def update_conv')

lemma map_of_dict_set: "map_of (dict_set d k v) = (map_of d)(k \<mapsto> v)"
  by (simp add: dict_set_def update_conv')

section \<open>An invalid feed selector\<close>



section \<open>The flat export\<close>

lemma as_flat_dict_concat: "as_flat_dict c = concat (map snd (as_dict c))"
  by (simp add: as_flat_dict_def as_dict_def nested_item_def dict_set_def dict_get_def Let_def)

lemma as_dict_keys_distinct: "distinct (map fst (concat (map snd (as_dict c))))"
  by (simp add: as_dict_def)

lemma distinct_lookup_all:
  assumes "distinct (map fst xs)"
  shows "list_all (\<lambda>(k, v). dict_has xs k \<and> dict_get xs k = v) xs"
proof -
  have "dict_has xs k \<and> dict_get xs k = v" if "(k, v) \<in> set xs" for k v
    using map_of_is_SomeI [OF assms that] by (simp add: dict_has_def dict_get_def)
  then show ?thesis by (auto simp: list_all_iff)
qed

lemma nested_lookup_all:
  assumes "distinct (map fst (concat (map snd n)))"
  shows "list_all (\<lambda>(category, props).
           list_all (\<lambda>(k, v). dict_has (concat (map snd n)) k
                                \<and> dict_get (concat (map snd n)) k = v) props) n"
proof -
  have "dict_has (concat (map snd n)) k \<and> dict_get (concat (map snd n)) k = v"
    if "(category, props) \<in> set n" and "(k, v) \<in> set props" for category props k v
  proof -
    from that have "(k, v) \<in> set (concat (map snd n))" by force
    from map_of_is_SomeI [OF assms this] show ?thesis
      by (simp add: dict_has_def dict_get_def)
  qed
  then show ?thesis by (fastforce simp: list_all_iff)
qed

text \<open>
  Claim C9. For every record, the flat mapping is the nested mapping with the category
  level removed: it lists the entries of \<^verbatim>\<open>meta\<close>, \<^verbatim>\<open>data\<close>,
  \<^verbatim>\<open>diagnostic\<close> and \<^verbatim>\<open>statistics\<close> one after the other. No key occurs twice
  in it, the key sets of the four categories are pairwise disjoint, and every entry of
  every category is in the flat mapping with the same value.
\<close>

theorem as_flat_dict_flattens_as_dict:
  "as_flat_dict c = concat (map snd (as_dict c))
   \<and> map fst (as_dict c) = [''meta'', ''data'', ''diagnostic'', ''statistics'']
   \<and> distinct (map fst (as_flat_dict c))
   \<and> set (category_keys c ''meta'') \<inter> set (category_keys c ''data'') = {}
   \<and> set (category_keys c ''meta'') \<inter> set (category_keys c ''diagnostic'') = {}
   \<and> set (category_keys c ''meta'') \<inter> set (category_keys c ''statistics'') = {}
   \<and> set (category_keys c ''data'') \<inter> set (category_keys c ''diagnostic'') = {}
   \<and> set (category_keys c ''data'') \<inter> set (category_keys c ''statistics'') = {}
   \<and> set (category_keys c ''diagnostic'') \<inter> set (category_keys c ''statistics'') = {}
   \<and> list_all (\<lambda>(category, props).
         list_all (\<lambda>(k, v). dict_has (as_flat_dict c) k \<and> dict_get (as_flat_dict c) k = v) props)
       (as_dict c)"
proof -
  have cats: "map fst (as_dict c) = [''meta'', ''data'', ''diagnostic'', ''statistics'']"
    by (simp add: as_dict_def)
  have d1: "set (category_keys c ''meta'') \<inter> set (category_keys c ''data'') = {}"
    by (simp add: category_keys_def as_dict_def nested_item_def)
  have d2: "set (category_keys c ''meta'') \<inter> set (category_keys c ''diagnostic'') = {}"
    by (simp add: category_keys_def as_dict_def nested_item_def)
  have d3: "set (category_keys c ''meta'') \<inter> set (category_keys c ''statistics'') = {}"
    by (simp add: category_keys_def as_dict_def nested_item_def)
  have d4: "set (category_keys c ''data'') \<inter> set (category_keys c ''diagnostic'') = {}"
    by (simp add: category_keys_def as_dict_def nested_item_def)
  have d5: "set (category_keys c ''data'') \<inter> set (category_keys c ''statistics'') = {}"
    by (simp add: category_keys_def as_dict_def nested_item_def)
  have d6: "set (category_keys c ''diagnostic'') \<inter> set (category_keys c ''statistics'') = {}"
    by (simp add: category_keys_def as_dict_def nested_item_def)
  have dist: "distinct (map fst (as_flat_dict c))"
    using as_dict_keys_distinct [of c] by (simp only: as_flat_dict_concat)
  have vals: "list_all (\<lambda>(category, props).
         list_all (\<lambda>(k, v). dict_has (as_flat_dict c) k \<and> dict_get (as_flat_dict c) k = v) props)
       (as_dict c)"
    using nested_lookup_all [OF as_dict_keys_distinct [of c]]
    by (simp only: as_flat_dict_concat)
  from as_flat_dict_concat [of c] cats dist d1 d2 d3 d4 d5 d6 vals show ?thesis
    by (intro conjI)
qed

section \<open>The caller's options mapping\<close>

lemma store_defaults_fresh:
  "store_defaults (length h) defs (h @ [d]) = h @ [add_defaults defs d]"
  unfolding store_defaults_def add_defaults_def
  by (induction defs arbitrary: d) (auto simp: nth_append)

text \<open>
  Run over the store, the function returns what the function on values returns for the
  dictionary the reference points to, and the store grows by exactly one dictionary: the
  local copy, which holds the arguments that were encoded.
\<close>

lemma get_thingspeak_url_store_run:
  "get_thingspeak_url_store E c f start endd ref fmt h =
     (get_thingspeak_url E c f start endd (map_option (\<lambda>r. h ! r) ref) fmt,
      if f \<noteq> ''primary'' \<and> f \<noteq> ''secondary'' then h
      else h @ [thingspeak_query (if f = ''primary'' then tp_primary_key c else tp_secondary_key c)
                  start endd (map_option (\<lambda>r. h ! r) ref)])"
  by (cases ref; cases endd)
     (auto simp: get_thingspeak_url_store_def get_thingspeak_url_def thingspeak_query_def
        Let_def store_defaults_fresh nth_append)

text \<open>
  Claim C10. When the caller passes a reference \<open>r\<close> to its options mapping, the call
  leaves the dictionary at \<open>r\<close>, and every other dictionary that existed before the
  call, unchanged: all writes go to the copy. The result is the one computed from the
  caller's values, and a second call with the same reference, made in the store the
  first call left, returns the same result.
\<close>

theorem caller_options_unchanged:
  assumes "r < length h"
  shows "(case get_thingspeak_url_store E c f start endd (Some r) fmt h of
            (res, h') \<Rightarrow>
               h' ! r = h ! r
               \<and> take (length h) h' = h
               \<and> res = get_thingspeak_url E c f start endd (Some (h ! r)) fmt
               \<and> fst (get_thingspeak_url_store E c f start endd (Some r) fmt h') = res)"
  using assms by (simp add: get_thingspeak_url_store_run nth_append)

theorem caller_options_unchanged_witness:
  "\<forall>E c start.
     (case get_thingspeak_url_store E c ''primary'' start None (Some 0) ''csv''
             [[(''offset'', PInt 5)]] of
        (res, h') \<Rightarrow>
           h' ! 0 = [(''offset'', PInt 5)]
           \<and> take 1 h' = [[(''offset'', PInt 5)]]
           \<and> res = get_thingspeak_url E c ''primary'' start None
                     (Some [(''offset'', PInt 5)]) ''csv''
           \<and> fst (get_thingspeak_url_store E c ''primary'' start None (Some 0) ''csv'' h') = res)"
proof (intro allI)
  fix E c start
  have "(0::nat) < length [[(''offset'', PInt 5)]]" by simp
  from caller_options_unchanged [OF this, of E c "''primary''" start None "''csv''"]
  show "(case get_thingspeak_url_store E c ''primary'' start None (Some 0) ''csv''
             [[(''offset'', PInt 5)]] of
        (res, h') \<Rightarrow>
           h' ! 0 = [(''offset'', PInt 5)]
           \<and> take 1 h' = [[(''offset'', PInt 5)]]
           \<and> res = get_thingspeak_url E c ''primary'' start None
                     (Some [(''offset'', PInt 5)]) ''csv''
           \<and> fst (get_thingspeak_url_store E c ''primary'' start None (Some 0) ''csv'' h') = res)"
    by simp
qed

end
